theory Spec2Isabelle
  imports Main "HOL-Library.Word"
begin

section \<open>Machine values\<close>

text \<open>
  The bridge is built for 64-bit hosts: a \<^verbatim>\<open>void*\<close> and a function pointer are one
  64-bit address, and \<^verbatim>\<open>NULL\<close> is the address 0. \<^verbatim>\<open>int\<close>, \<^verbatim>\<open>int32_t\<close> and
  \<^verbatim>\<open>unsigned int\<close> are 32-bit words, \<^verbatim>\<open>uint64_t\<close> is a 64-bit word.
\<close>

type_synonym ptr = "64 word"
type_synonym c_int = "32 word"
type_synonym c_uint = "32 word"
type_synonym uint64_t = "64 word"

abbreviation NULL :: ptr where
  "NULL \<equiv> 0"

text \<open>
  wrapper.h declares six wrapper structs
  (\<^verbatim>\<open>SignalMutPointerSessionRecord\<close>, \<^verbatim>\<open>SignalConstPointerSessionRecord\<close>,
  \<^verbatim>\<open>SignalConstPointerProtocolAddress\<close>, \<^verbatim>\<open>SignalMutPointerPrivateKey\<close>,
  \<^verbatim>\<open>SignalConstPointerPublicKey\<close>, \<^verbatim>\<open>SignalMutPointerPublicKey\<close>), each with the
  single field \<^verbatim>\<open>raw\<close>. One record stands for the common layout.
\<close>

record signal_pointer =
  raw :: ptr

type_synonym SignalConstPointerProtocolAddress = signal_pointer
type_synonym SignalConstPointerSessionRecord = signal_pointer
type_synonym SignalConstPointerPublicKey = signal_pointer

text \<open>
  A \<^verbatim>\<open>void*\<close> argument built by a wrapper is either an engine pointer cast as it is,
  \<^verbatim>\<open>(void*)p\<close>, or the address of the wrapper's own by-value parameter,
  \<^verbatim>\<open>(void*)&v\<close>; the handler that dereferences the latter reads the struct \<open>v\<close>.
\<close>

datatype void_ptr =
    Cast ptr
  | AddressOf signal_pointer

text \<open>
  The argument lists of the callback types of wrapper.c and callback_bridge.h:
  \<^verbatim>\<open>int (*)(void*, void*)\<close>, \<^verbatim>\<open>int (*)(void*, void*, void*)\<close>,
  \<^verbatim>\<open>int (*)(void*, void*, void*, unsigned int)\<close> and
  \<^verbatim>\<open>int32_t (*)(uint64_t)\<close>.
\<close>

datatype invocation =
    Call2 ptr void_ptr
  | Call3 ptr void_ptr void_ptr
  | Call4 ptr void_ptr void_ptr c_uint
  | CallDispatch uint64_t

text \<open>
  The handlers are host code outside the bridge. \<open>code f a w\<close> is what calling the address
  \<open>f\<close> with the arguments \<open>a\<close> does in the host world \<open>w\<close>: the status it returns and
  the host world it leaves, or \<open>None\<close> when the call never returns. The host world is
  everything a handler can read and write (the host's stores, the engine's records and
  keys). The statics of the bridge are not in it: they are file-local, and written by the
  registration functions only, which the host calls during its setup.
\<close>

type_synonym 'w native_code = "ptr \<Rightarrow> invocation \<Rightarrow> 'w \<Rightarrow> (c_int \<times> 'w) option"

section \<open>The callback registry\<close>

text \<open>
  The static variables of wrapper.c (seven callback slots) and of callback_bridge.c
  (\<^verbatim>\<open>g_dart_callback\<close>, \<^verbatim>\<open>g_dart_callback_ptr\<close>), with the host world and the log of
  the calls made through a function pointer, oldest first.
\<close>

record 'w machine =
  g_load_session_callback :: ptr
  g_store_session_callback :: ptr
  g_get_identity_key_pair_callback :: ptr
  g_get_local_registration_id_callback :: ptr
  g_save_identity_key_callback :: ptr
  g_get_identity_key_callback :: ptr
  g_is_trusted_identity_callback :: ptr
  g_dart_callback :: ptr
  g_dart_callback_ptr :: ptr
  host :: 'w
  calls :: "(ptr \<times> invocation) list"

text \<open>Every static is initialised to \<^verbatim>\<open>NULL\<close>.\<close>

definition initial :: "'w \<Rightarrow> 'w machine" where
  "initial w =
     \<lparr> g_load_session_callback = NULL,
       g_store_session_callback = NULL,
       g_get_identity_key_pair_callback = NULL,
       g_get_local_registration_id_callback = NULL,
       g_save_identity_key_callback = NULL,
       g_get_identity_key_callback = NULL,
       g_is_trusted_identity_callback = NULL,
       g_dart_callback = NULL,
       g_dart_callback_ptr = NULL,
       host = w,
       calls = [] \<rparr>"

subsection \<open>Registration functions of wrapper.c\<close>

definition spots_register_load_session_callback :: "ptr \<Rightarrow> 'w machine \<Rightarrow> 'w machine" where
  "spots_register_load_session_callback callback s =
     s\<lparr>g_load_session_callback := callback\<rparr>"

definition spots_register_store_session_callback :: "ptr \<Rightarrow> 'w machine \<Rightarrow> 'w machine" where
  "spots_register_store_session_callback callback s =
     s\<lparr>g_store_session_callback := callback\<rparr>"

definition spots_register_get_identity_key_pair_callback :: "ptr \<Rightarrow> 'w machine \<Rightarrow> 'w machine" where
  "spots_register_get_identity_key_pair_callback callback s =
     s\<lparr>g_get_identity_key_pair_callback := callback\<rparr>"

definition spots_register_get_local_registration_id_callback :: "ptr \<Rightarrow> 'w machine \<Rightarrow> 'w machine" where
  "spots_register_get_local_registration_id_callback callback s =
     s\<lparr>g_get_local_registration_id_callback := callback\<rparr>"

definition spots_register_save_identity_key_callback :: "ptr \<Rightarrow> 'w machine \<Rightarrow> 'w machine" where
  "spots_register_save_identity_key_callback callback s =
     s\<lparr>g_save_identity_key_callback := callback\<rparr>"

definition spots_register_get_identity_key_callback :: "ptr \<Rightarrow> 'w machine \<Rightarrow> 'w machine" where
  "spots_register_get_identity_key_callback callback s =
     s\<lparr>g_get_identity_key_callback := callback\<rparr>"

definition spots_register_is_trusted_identity_callback :: "ptr \<Rightarrow> 'w machine \<Rightarrow> 'w machine" where
  "spots_register_is_trusted_identity_callback callback s =
     s\<lparr>g_is_trusted_identity_callback := callback\<rparr>"

subsection \<open>Registration functions of callback\_bridge.c\<close>

definition signal_register_dispatch_callback :: "ptr \<Rightarrow> 'w machine \<Rightarrow> 'w machine" where
  "signal_register_dispatch_callback callback s = s\<lparr>g_dart_callback := callback\<rparr>"

definition signal_register_dispatch_callback_ptr :: "ptr \<Rightarrow> 'w machine \<Rightarrow> 'w machine" where
  "signal_register_dispatch_callback_ptr callback_ptr s =
     (let s1 = s\<lparr>g_dart_callback_ptr := callback_ptr\<rparr>
      in s1\<lparr>g_dart_callback := callback_ptr\<rparr>)"

text \<open>
  \<^verbatim>\<open>dlsym(RTLD_DEFAULT, name)\<close> is the process's dynamic symbol table, a parameter here:
  the address of the symbol, \<^verbatim>\<open>NULL\<close> when the name does not resolve.
\<close>

type_synonym symbol_table = "string \<Rightarrow> ptr"

definition signal_register_dispatch_callback_by_name ::
  "symbol_table \<Rightarrow> string \<Rightarrow> 'w machine \<Rightarrow> 'w machine" where
  "signal_register_dispatch_callback_by_name dlsym function_name s =
     (let func_ptr = dlsym function_name
      in if func_ptr \<noteq> NULL
         then (let s1 = s\<lparr>g_dart_callback := func_ptr\<rparr>
               in s1\<lparr>g_dart_callback_ptr := func_ptr\<rparr>)
         else s)"

section \<open>The wrappers\<close>

text \<open>
  A call through a function pointer: the host code at \<open>f\<close> runs on the host world, the
  call is logged, and the callee's status is the value of the call.
\<close>

definition call_through :: "'w native_code \<Rightarrow> ptr \<Rightarrow> invocation \<Rightarrow> 'w machine
    \<Rightarrow> (c_int \<times> 'w machine) option" where
  "call_through code f a s =
     (case code f a (host s) of
        None \<Rightarrow> None
      | Some (r, w') \<Rightarrow> Some (r, s\<lparr>host := w', calls := calls s @ [(f, a)]\<rparr>))"

definition spots_load_session_wrapper :: "'w native_code \<Rightarrow> 'w machine \<Rightarrow> ptr \<Rightarrow> ptr
    \<Rightarrow> SignalConstPointerProtocolAddress \<Rightarrow> (c_int \<times> 'w machine) option" where
  "spots_load_session_wrapper code s store_ctx recordp address =
     (if g_load_session_callback s = NULL then Some (1, s)
      else call_through code (g_load_session_callback s)
             (Call3 store_ctx (Cast recordp) (AddressOf address)) s)"

definition spots_store_session_wrapper :: "'w native_code \<Rightarrow> 'w machine \<Rightarrow> ptr
    \<Rightarrow> SignalConstPointerProtocolAddress \<Rightarrow> SignalConstPointerSessionRecord
    \<Rightarrow> (c_int \<times> 'w machine) option" where
  "spots_store_session_wrapper code s store_ctx address record' =
     (if g_store_session_callback s = NULL then Some (1, s)
      else call_through code (g_store_session_callback s)
             (Call3 store_ctx (AddressOf address) (AddressOf record')) s)"

definition spots_get_identity_key_pair_wrapper :: "'w native_code \<Rightarrow> 'w machine \<Rightarrow> ptr \<Rightarrow> ptr
    \<Rightarrow> (c_int \<times> 'w machine) option" where
  "spots_get_identity_key_pair_wrapper code s store_ctx keyp =
     (if g_get_identity_key_pair_callback s = NULL then Some (1, s)
      else call_through code (g_get_identity_key_pair_callback s)
             (Call2 store_ctx (Cast keyp)) s)"

definition spots_get_local_registration_id_wrapper :: "'w native_code \<Rightarrow> 'w machine \<Rightarrow> ptr
    \<Rightarrow> ptr \<Rightarrow> (c_int \<times> 'w machine) option" where
  "spots_get_local_registration_id_wrapper code s store_ctx idp =
     (if g_get_local_registration_id_callback s = NULL then Some (1, s)
      else call_through code (g_get_local_registration_id_callback s)
             (Call2 store_ctx (Cast idp)) s)"

definition spots_save_identity_key_wrapper :: "'w native_code \<Rightarrow> 'w machine \<Rightarrow> ptr
    \<Rightarrow> SignalConstPointerProtocolAddress \<Rightarrow> SignalConstPointerPublicKey
    \<Rightarrow> (c_int \<times> 'w machine) option" where
  "spots_save_identity_key_wrapper code s store_ctx address public_key =
     (if g_save_identity_key_callback s = NULL then Some (1, s)
      else call_through code (g_save_identity_key_callback s)
             (Call3 store_ctx (AddressOf address) (AddressOf public_key)) s)"

definition spots_get_identity_key_wrapper :: "'w native_code \<Rightarrow> 'w machine \<Rightarrow> ptr \<Rightarrow> ptr
    \<Rightarrow> SignalConstPointerProtocolAddress \<Rightarrow> (c_int \<times> 'w machine) option" where
  "spots_get_identity_key_wrapper code s store_ctx public_keyp address =
     (if g_get_identity_key_callback s = NULL then Some (1, s)
      else call_through code (g_get_identity_key_callback s)
             (Call3 store_ctx (Cast public_keyp) (AddressOf address)) s)"

definition spots_is_trusted_identity_wrapper :: "'w native_code \<Rightarrow> 'w machine \<Rightarrow> ptr
    \<Rightarrow> SignalConstPointerProtocolAddress \<Rightarrow> SignalConstPointerPublicKey \<Rightarrow> c_uint
    \<Rightarrow> (c_int \<times> 'w machine) option" where
  "spots_is_trusted_identity_wrapper code s store_ctx address public_key direction =
     (if g_is_trusted_identity_callback s = NULL then Some (1, s)
      else call_through code (g_is_trusted_identity_callback s)
             (Call4 store_ctx (AddressOf address) (AddressOf public_key) direction) s)"

definition signal_dispatch_wrapper :: "'w native_code \<Rightarrow> 'w machine \<Rightarrow> uint64_t
    \<Rightarrow> (c_int \<times> 'w machine) option" where
  "signal_dispatch_wrapper code s args_address =
     (if g_dart_callback s = NULL then Some (1, s)
      else call_through code (g_dart_callback s) (CallDispatch args_address) s)"

section \<open>The two surfaces of the bridge\<close>

text \<open>
  The eight operations that have a wrapper in these sources, the slot each wrapper
  reads, the engine's calls (one constructor per wrapper, with the wrapper's parameters)
  and the registration call of each operation.
\<close>

datatype operation =
    LoadSession
  | StoreSession
  | GetIdentityKeyPair
  | GetLocalRegistrationId
  | SaveIdentityKey
  | GetIdentityKey
  | IsTrustedIdentity
  | Dispatch

fun slot :: "operation \<Rightarrow> 'w machine \<Rightarrow> ptr" where
  "slot LoadSession s = g_load_session_callback s"
| "slot StoreSession s = g_store_session_callback s"
| "slot GetIdentityKeyPair s = g_get_identity_key_pair_callback s"
| "slot GetLocalRegistrationId s = g_get_local_registration_id_callback s"
| "slot SaveIdentityKey s = g_save_identity_key_callback s"
| "slot GetIdentityKey s = g_get_identity_key_callback s"
| "slot IsTrustedIdentity s = g_is_trusted_identity_callback s"
| "slot Dispatch s = g_dart_callback s"

fun register :: "operation \<Rightarrow> ptr \<Rightarrow> 'w machine \<Rightarrow> 'w machine" where
  "register LoadSession h s = spots_register_load_session_callback h s"
| "register StoreSession h s = spots_register_store_session_callback h s"
| "register GetIdentityKeyPair h s = spots_register_get_identity_key_pair_callback h s"
| "register GetLocalRegistrationId h s = spots_register_get_local_registration_id_callback h s"
| "register SaveIdentityKey h s = spots_register_save_identity_key_callback h s"
| "register GetIdentityKey h s = spots_register_get_identity_key_callback h s"
| "register IsTrustedIdentity h s = spots_register_is_trusted_identity_callback h s"
| "register Dispatch h s = signal_register_dispatch_callback h s"

datatype engine_call =
    LoadSessionCall ptr ptr SignalConstPointerProtocolAddress
  | StoreSessionCall ptr SignalConstPointerProtocolAddress SignalConstPointerSessionRecord
  | GetIdentityKeyPairCall ptr ptr
  | GetLocalRegistrationIdCall ptr ptr
  | SaveIdentityKeyCall ptr SignalConstPointerProtocolAddress SignalConstPointerPublicKey
  | GetIdentityKeyCall ptr ptr SignalConstPointerProtocolAddress
  | IsTrustedIdentityCall ptr SignalConstPointerProtocolAddress SignalConstPointerPublicKey c_uint
  | DispatchCall uint64_t

fun operation_of :: "engine_call \<Rightarrow> operation" where
  "operation_of (LoadSessionCall _ _ _) = LoadSession"
| "operation_of (StoreSessionCall _ _ _) = StoreSession"
| "operation_of (GetIdentityKeyPairCall _ _) = GetIdentityKeyPair"
| "operation_of (GetLocalRegistrationIdCall _ _) = GetLocalRegistrationId"
| "operation_of (SaveIdentityKeyCall _ _ _) = SaveIdentityKey"
| "operation_of (GetIdentityKeyCall _ _ _) = GetIdentityKey"
| "operation_of (IsTrustedIdentityCall _ _ _ _) = IsTrustedIdentity"
| "operation_of (DispatchCall _) = Dispatch"

fun invoke :: "'w native_code \<Rightarrow> engine_call \<Rightarrow> 'w machine \<Rightarrow> (c_int \<times> 'w machine) option" where
  "invoke code (LoadSessionCall ctx recordp address) s =
     spots_load_session_wrapper code s ctx recordp address"
| "invoke code (StoreSessionCall ctx address record') s =
     spots_store_session_wrapper code s ctx address record'"
| "invoke code (GetIdentityKeyPairCall ctx keyp) s =
     spots_get_identity_key_pair_wrapper code s ctx keyp"
| "invoke code (GetLocalRegistrationIdCall ctx idp) s =
     spots_get_local_registration_id_wrapper code s ctx idp"
| "invoke code (SaveIdentityKeyCall ctx address public_key) s =
     spots_save_identity_key_wrapper code s ctx address public_key"
| "invoke code (GetIdentityKeyCall ctx public_keyp address) s =
     spots_get_identity_key_wrapper code s ctx public_keyp address"
| "invoke code (IsTrustedIdentityCall ctx address public_key direction) s =
     spots_is_trusted_identity_wrapper code s ctx address public_key direction"
| "invoke code (DispatchCall args_address) s =
     signal_dispatch_wrapper code s args_address"

text \<open>The engine running a sequence of calls, each to completion; \<open>None\<close> when one hangs.\<close>

fun run :: "'w native_code \<Rightarrow> engine_call list \<Rightarrow> 'w machine \<Rightarrow> 'w machine option" where
  "run code [] s = Some s"
| "run code (c # cs) s =
     (case invoke code c s of
        None \<Rightarrow> None
      | Some (r, s') \<Rightarrow> run code cs s')"

text \<open>The argument list each wrapper passes to the handler it calls.\<close>

fun handler_args :: "engine_call \<Rightarrow> invocation" where
  "handler_args (LoadSessionCall ctx recordp address) =
     Call3 ctx (Cast recordp) (AddressOf address)"
| "handler_args (StoreSessionCall ctx address record') =
     Call3 ctx (AddressOf address) (AddressOf record')"
| "handler_args (GetIdentityKeyPairCall ctx keyp) = Call2 ctx (Cast keyp)"
| "handler_args (GetLocalRegistrationIdCall ctx idp) = Call2 ctx (Cast idp)"
| "handler_args (SaveIdentityKeyCall ctx address public_key) =
     Call3 ctx (AddressOf address) (AddressOf public_key)"
| "handler_args (GetIdentityKeyCall ctx public_keyp address) =
     Call3 ctx (Cast public_keyp) (AddressOf address)"
| "handler_args (IsTrustedIdentityCall ctx address public_key direction) =
     Call4 ctx (AddressOf address) (AddressOf public_key) direction"
| "handler_args (DispatchCall args_address) = CallDispatch args_address"

text \<open>What the engine and the host can see of a call: status, host world, call log.\<close>

definition outcome :: "(c_int \<times> 'w machine) option
    \<Rightarrow> (c_int \<times> 'w \<times> (ptr \<times> invocation) list) option" where
  "outcome res = map_option (\<lambda>(r, s'). (r, host s', calls s')) res"

text \<open>
  The handler of the scenario: the host code at the address \<open>h\<close> takes the three
  arguments of a LoadSession handler, records the context and the address argument it
  received in the host world and returns 0. Nothing else is callable.
\<close>

definition recording_handler :: "ptr \<Rightarrow> (ptr \<times> void_ptr) list native_code" where
  "recording_handler h f a w =
     (if f = h
      then (case a of
              Call3 ctx recordp address \<Rightarrow> Some (0, w @ [(ctx, address)])
            | _ \<Rightarrow> None)
      else None)"

section \<open>Unfolding rules\<close>

lemmas register_defs =
  spots_register_load_session_callback_def spots_register_store_session_callback_def
  spots_register_get_identity_key_pair_callback_def
  spots_register_get_local_registration_id_callback_def
  spots_register_save_identity_key_callback_def spots_register_get_identity_key_callback_def
  spots_register_is_trusted_identity_callback_def signal_register_dispatch_callback_def

lemmas wrapper_defs =
  spots_load_session_wrapper_def spots_store_session_wrapper_def
  spots_get_identity_key_pair_wrapper_def spots_get_local_registration_id_wrapper_def
  spots_save_identity_key_wrapper_def spots_get_identity_key_wrapper_def
  spots_is_trusted_identity_wrapper_def signal_dispatch_wrapper_def

section \<open>Invocation without a handler\<close>

lemma invoke_unregistered:
  "slot (operation_of c) s = NULL \<Longrightarrow> invoke code c s = Some (1, s)"
  by (cases c) (simp_all add: wrapper_defs)

lemma slot_initial: "slot op (initial w) = NULL"
  by (cases op) (simp_all add: initial_def)

text \<open>
  C1. Whichever of the eight wrappers the engine calls, if the slot of its operation
  holds \<^verbatim>\<open>NULL\<close> the wrapper returns the status 1 and leaves the machine as it was: the
  call log gains no entry and the host world is untouched, whatever the host code would
  do. This is the case in particular before any registration.
\<close>

theorem not_registered_returns_sentinel:
  "(slot (operation_of c) s = NULL \<longrightarrow> invoke code c s = Some (1, s))
   \<and> invoke code c (initial w) = Some (1, initial w)"
  by (simp add: invoke_unregistered slot_initial)

theorem not_registered_returns_sentinel_witness:
  "slot (operation_of (StoreSessionCall 7 \<lparr>raw = 8\<rparr> \<lparr>raw = 9\<rparr>))
       (register LoadSession 5 (initial (0::nat))) = NULL
   \<and> invoke (\<lambda>f a w. None) (StoreSessionCall 7 \<lparr>raw = 8\<rparr> \<lparr>raw = 9\<rparr>)
       (register LoadSession 5 (initial (0::nat)))
     = Some (1, register LoadSession 5 (initial 0))"
proof -
  have h: "slot (operation_of (StoreSessionCall 7 \<lparr>raw = 8\<rparr> \<lparr>raw = 9\<rparr>))
       (register LoadSession 5 (initial (0::nat))) = NULL"
    by (simp add: initial_def register_defs)
  show ?thesis
    using h not_registered_returns_sentinel
      [of "StoreSessionCall 7 \<lparr>raw = 8\<rparr> \<lparr>raw = 9\<rparr>" "register LoadSession 5 (initial (0::nat))"
          "\<lambda>f a w. None" 0]
    by simp
qed

section \<open>Registry facts\<close>

lemma slot_register_same: "slot op (register op h s) = h"
  by (cases op) (simp_all add: register_defs)

lemma slot_register_other: "op \<noteq> op' \<Longrightarrow> slot op' (register op h s) = slot op' s"
  by (cases op; cases op') (simp_all add: register_defs)

lemma register_twice: "register op h2 (register op h1 s) = register op h2 s"
  by (cases op) (simp_all add: register_defs)

lemma host_register: "host (register op h s) = host s"
  by (cases op) (simp_all add: register_defs)

lemma calls_register: "calls (register op h s) = calls s"
  by (cases op) (simp_all add: register_defs)

lemma invoke_registered:
  "slot (operation_of c) s \<noteq> NULL \<Longrightarrow>
   invoke code c s = call_through code (slot (operation_of c) s) (handler_args c) s"
  by (cases c) (simp_all add: wrapper_defs)

lemma call_through_slot:
  "call_through code f a s = Some (r, s') \<Longrightarrow> slot op s' = slot op s"
  by (cases op) (auto simp: call_through_def split: option.splits)

lemma invoke_slot: "invoke code c s = Some (r, s') \<Longrightarrow> slot op s' = slot op s"
proof (cases "slot (operation_of c) s = NULL")
  case True
  assume "invoke code c s = Some (r, s')"
  with True show ?thesis by (simp add: invoke_unregistered)
next
  case False
  assume "invoke code c s = Some (r, s')"
  with False show ?thesis by (simp add: invoke_registered call_through_slot)
qed

lemma run_slot: "run code cs s = Some s1 \<Longrightarrow> slot op s1 = slot op s"
proof (induction cs arbitrary: s)
  case Nil
  then show ?case by simp
next
  case (Cons c cs)
  then obtain r s' where step: "invoke code c s = Some (r, s')" and rest: "run code cs s' = Some s1"
    by (auto split: option.splits)
  from Cons.IH [OF rest] invoke_slot [OF step] show ?case by simp
qed

section \<open>Replacing a registration\<close>

text \<open>
  C2. Registering \<open>h1\<close> and then \<open>h2\<close> for an operation leaves the machine exactly as
  registering \<open>h2\<close> alone does, and the slot holds \<open>h2\<close>. After any further engine calls
  that ran to completion the slot still holds \<open>h2\<close>, and a call of the operation's wrapper
  then makes one call through a function pointer, to \<open>h2\<close>, whose status it returns
  (\<open>h2\<close> being a handler, not \<^verbatim>\<open>NULL\<close>).
\<close>

theorem last_registration_wins:
  assumes "run code cs (register op h2 (register op h1 s)) = Some s1"
    and "operation_of c = op" and "h2 \<noteq> NULL"
  shows "register op h2 (register op h1 s) = register op h2 s
    \<and> slot op s1 = h2
    \<and> invoke code c s1 =
        map_option (\<lambda>(r, w'). (r, s1\<lparr>host := w', calls := calls s1 @ [(h2, handler_args c)]\<rparr>))
          (code h2 (handler_args c) (host s1))"
proof -
  have held: "slot op s1 = h2"
    using run_slot [OF assms(1), of op] by (simp add: slot_register_same)
  with assms(2,3) have "slot (operation_of c) s1 \<noteq> NULL" by simp
  from invoke_registered [OF this, of code] held assms(2)
  show ?thesis
    by (simp add: register_twice call_through_def map_option_case split: option.splits)
qed

theorem last_registration_wins_witness:
  "operation_of (DispatchCall 41) = Dispatch \<and> (6::ptr) \<noteq> NULL
   \<and> run (\<lambda>f a w. Some (of_nat (unat f), Suc w)) [DispatchCall 40, GetIdentityKeyPairCall 1 2]
       (register Dispatch 6 (register Dispatch 5 (initial (0::nat))))
     = Some ((register Dispatch 6 (initial (Suc 0)))
              \<lparr>calls := [(6, CallDispatch 40)]\<rparr>)
   \<and> invoke (\<lambda>f a w. Some (of_nat (unat f), Suc w)) (DispatchCall 41)
        ((register Dispatch 6 (initial (Suc 0)))\<lparr>calls := [(6, CallDispatch 40)]\<rparr>)
     = Some (6, (register Dispatch 6 (initial (Suc (Suc 0))))
              \<lparr>calls := [(6, CallDispatch 40), (6, CallDispatch 41)]\<rparr>)"
proof -
  let ?code = "\<lambda>(f::ptr) (a::invocation) (w::nat). Some (of_nat (unat f) :: c_int, Suc w)"
  let ?s1 = "(register Dispatch 6 (initial (Suc 0)))\<lparr>calls := [(6, CallDispatch 40)]\<rparr>"
  have r: "run ?code [DispatchCall 40, GetIdentityKeyPairCall 1 2]
       (register Dispatch 6 (register Dispatch 5 (initial (0::nat)))) = Some ?s1"
    by (simp add: initial_def register_defs wrapper_defs call_through_def)
  have o: "operation_of (DispatchCall 41) = Dispatch" by simp
  have n: "(6::ptr) \<noteq> NULL" by simp
  show ?thesis
    using r o n last_registration_wins [OF r o n]
    by (simp add: initial_def register_defs)
qed

section \<open>Forwarding the status\<close>

text \<open>
  C3. A wrapper whose slot holds a handler makes exactly one call through a function
  pointer, to that handler, and returns the very status the handler returned, success
  or failure: the result of the wrapper is the result of that one call, with the host
  world the handler left and one entry added to the call log. When the handler returns
  the status \<open>r\<close>, so does the wrapper; when it never returns, neither does the wrapper.
\<close>

theorem status_forwarded_verbatim:
  assumes "slot (operation_of c) s \<noteq> NULL"
  shows "invoke code c s =
      map_option
        (\<lambda>(r, w'). (r, s\<lparr>host := w',
                            calls := calls s @ [(slot (operation_of c) s, handler_args c)]\<rparr>))
        (code (slot (operation_of c) s) (handler_args c) (host s))
    \<and> (code (slot (operation_of c) s) (handler_args c) (host s) = Some (r, w')
        \<longrightarrow> map_option fst (invoke code c s) = Some r)"
  using invoke_registered [OF assms, of code]
  by (simp add: call_through_def map_option_case split: option.splits)

theorem status_forwarded_verbatim_witness:
  "slot (operation_of (GetLocalRegistrationIdCall 3 4))
       (register GetLocalRegistrationId 9 (initial (0::nat))) \<noteq> NULL
   \<and> invoke (\<lambda>f a w. Some (- 7, w + 2)) (GetLocalRegistrationIdCall 3 4)
        (register GetLocalRegistrationId 9 (initial (0::nat)))
     = Some (- 7, (register GetLocalRegistrationId 9 (initial 2))
                    \<lparr>calls := [(9, Call2 3 (Cast 4))]\<rparr>)"
proof -
  let ?s = "register GetLocalRegistrationId 9 (initial (0::nat))"
  have h: "slot (operation_of (GetLocalRegistrationIdCall 3 4)) ?s \<noteq> NULL"
    by (simp add: initial_def register_defs)
  show ?thesis
    using h status_forwarded_verbatim
      [OF h, where code = "\<lambda>f a w. Some (- 7, w + 2)" and r = "- 7" and w' = 2]
    by (simp add: initial_def register_defs)
qed

section \<open>Forwarding the arguments\<close>

text \<open>
  C4. Each of the seven store wrappers, when its slot holds a handler, calls that
  handler once with the engine's arguments: the context pointer first and as it is, a
  pointer parameter cast to \<^verbatim>\<open>void*\<close>, a by-value wrapper struct as the address of the
  wrapper's copy of it, and the direction of IsTrustedIdentity as it is; the wrapper
  returns the handler's status. In the scenario, a LoadSession handler registered at
  \<open>h\<close> that records what it receives observes the context \<open>ctx\<close> and the address of a
  copy of \<open>addr\<close>, and the wrapper returns the handler's 0.
\<close>

theorem arguments_forwarded:
  "(g_load_session_callback s \<noteq> NULL \<longrightarrow>
      spots_load_session_wrapper code s ctx recordp address =
        map_option (\<lambda>(r, w'). (r, s\<lparr>host := w', calls := calls s @
            [(g_load_session_callback s, Call3 ctx (Cast recordp) (AddressOf address))]\<rparr>))
          (code (g_load_session_callback s)
             (Call3 ctx (Cast recordp) (AddressOf address)) (host s)))
   \<and> (g_store_session_callback s \<noteq> NULL \<longrightarrow>
      spots_store_session_wrapper code s ctx address record' =
        map_option (\<lambda>(r, w'). (r, s\<lparr>host := w', calls := calls s @
            [(g_store_session_callback s, Call3 ctx (AddressOf address) (AddressOf record'))]\<rparr>))
          (code (g_store_session_callback s)
             (Call3 ctx (AddressOf address) (AddressOf record')) (host s)))
   \<and> (g_get_identity_key_pair_callback s \<noteq> NULL \<longrightarrow>
      spots_get_identity_key_pair_wrapper code s ctx keyp =
        map_option (\<lambda>(r, w'). (r, s\<lparr>host := w', calls := calls s @
            [(g_get_identity_key_pair_callback s, Call2 ctx (Cast keyp))]\<rparr>))
          (code (g_get_identity_key_pair_callback s) (Call2 ctx (Cast keyp)) (host s)))
   \<and> (g_get_local_registration_id_callback s \<noteq> NULL \<longrightarrow>
      spots_get_local_registration_id_wrapper code s ctx idp =
        map_option (\<lambda>(r, w'). (r, s\<lparr>host := w', calls := calls s @
            [(g_get_local_registration_id_callback s, Call2 ctx (Cast idp))]\<rparr>))
          (code (g_get_local_registration_id_callback s) (Call2 ctx (Cast idp)) (host s)))
   \<and> (g_save_identity_key_callback s \<noteq> NULL \<longrightarrow>
      spots_save_identity_key_wrapper code s ctx address public_key =
        map_option (\<lambda>(r, w'). (r, s\<lparr>host := w', calls := calls s @
            [(g_save_identity_key_callback s,
              Call3 ctx (AddressOf address) (AddressOf public_key))]\<rparr>))
          (code (g_save_identity_key_callback s)
             (Call3 ctx (AddressOf address) (AddressOf public_key)) (host s)))
   \<and> (g_get_identity_key_callback s \<noteq> NULL \<longrightarrow>
      spots_get_identity_key_wrapper code s ctx public_keyp address =
        map_option (\<lambda>(r, w'). (r, s\<lparr>host := w', calls := calls s @
            [(g_get_identity_key_callback s,
              Call3 ctx (Cast public_keyp) (AddressOf address))]\<rparr>))
          (code (g_get_identity_key_callback s)
             (Call3 ctx (Cast public_keyp) (AddressOf address)) (host s)))
   \<and> (g_is_trusted_identity_callback s \<noteq> NULL \<longrightarrow>
      spots_is_trusted_identity_wrapper code s ctx address public_key direction =
        map_option (\<lambda>(r, w'). (r, s\<lparr>host := w', calls := calls s @
            [(g_is_trusted_identity_callback s,
              Call4 ctx (AddressOf address) (AddressOf public_key) direction)]\<rparr>))
          (code (g_is_trusted_identity_callback s)
             (Call4 ctx (AddressOf address) (AddressOf public_key) direction) (host s)))
   \<and> (h \<noteq> NULL \<longrightarrow>
      spots_load_session_wrapper (recording_handler h)
          (spots_register_load_session_callback h (initial [])) ctx recordp addr =
        Some (0, (spots_register_load_session_callback h (initial []))
                   \<lparr>host := [(ctx, AddressOf addr)],
                    calls := [(h, Call3 ctx (Cast recordp) (AddressOf addr))]\<rparr>))"
  by (simp add: wrapper_defs call_through_def map_option_case recording_handler_def
      spots_register_load_session_callback_def initial_def split: option.splits)

theorem arguments_forwarded_witness:
  "g_load_session_callback (foldr (\<lambda>(op, h). register op h)
       [(LoadSession, 11), (StoreSession, 12), (GetIdentityKeyPair, 13),
        (GetLocalRegistrationId, 14), (SaveIdentityKey, 15), (GetIdentityKey, 16),
        (IsTrustedIdentity, 17)] (initial (0::nat))) \<noteq> NULL
   \<and> g_store_session_callback (foldr (\<lambda>(op, h). register op h)
       [(LoadSession, 11), (StoreSession, 12), (GetIdentityKeyPair, 13),
        (GetLocalRegistrationId, 14), (SaveIdentityKey, 15), (GetIdentityKey, 16),
        (IsTrustedIdentity, 17)] (initial (0::nat))) \<noteq> NULL
   \<and> g_get_identity_key_pair_callback (foldr (\<lambda>(op, h). register op h)
       [(LoadSession, 11), (StoreSession, 12), (GetIdentityKeyPair, 13),
        (GetLocalRegistrationId, 14), (SaveIdentityKey, 15), (GetIdentityKey, 16),
        (IsTrustedIdentity, 17)] (initial (0::nat))) \<noteq> NULL
   \<and> g_get_local_registration_id_callback (foldr (\<lambda>(op, h). register op h)
       [(LoadSession, 11), (StoreSession, 12), (GetIdentityKeyPair, 13),
        (GetLocalRegistrationId, 14), (SaveIdentityKey, 15), (GetIdentityKey, 16),
        (IsTrustedIdentity, 17)] (initial (0::nat))) \<noteq> NULL
   \<and> g_save_identity_key_callback (foldr (\<lambda>(op, h). register op h)
       [(LoadSession, 11), (StoreSession, 12), (GetIdentityKeyPair, 13),
        (GetLocalRegistrationId, 14), (SaveIdentityKey, 15), (GetIdentityKey, 16),
        (IsTrustedIdentity, 17)] (initial (0::nat))) \<noteq> NULL
   \<and> g_get_identity_key_callback (foldr (\<lambda>(op, h). register op h)
       [(LoadSession, 11), (StoreSession, 12), (GetIdentityKeyPair, 13),
        (GetLocalRegistrationId, 14), (SaveIdentityKey, 15), (GetIdentityKey, 16),
        (IsTrustedIdentity, 17)] (initial (0::nat))) \<noteq> NULL
   \<and> g_is_trusted_identity_callback (foldr (\<lambda>(op, h). register op h)
       [(LoadSession, 11), (StoreSession, 12), (GetIdentityKeyPair, 13),
        (GetLocalRegistrationId, 14), (SaveIdentityKey, 15), (GetIdentityKey, 16),
        (IsTrustedIdentity, 17)] (initial (0::nat))) \<noteq> NULL
   \<and> (11::ptr) \<noteq> NULL
   \<and> map_option fst (spots_is_trusted_identity_wrapper
        (\<lambda>f a w. case a of Call4 x y z d \<Rightarrow> Some (if d = 2 then 1 else 0, w + 1)
                  | _ \<Rightarrow> Some (5, w))
        (foldr (\<lambda>(op, h). register op h)
          [(LoadSession, 11), (StoreSession, 12), (GetIdentityKeyPair, 13),
           (GetLocalRegistrationId, 14), (SaveIdentityKey, 15), (GetIdentityKey, 16),
           (IsTrustedIdentity, 17)] (initial (0::nat)))
        3 \<lparr>raw = 4\<rparr> \<lparr>raw = 5\<rparr> 2) = Some 1
   \<and> map_option (\<lambda>(r, s'). (r, host s', calls s')) (spots_store_session_wrapper
        (\<lambda>f a w. case a of Call4 x y z d \<Rightarrow> Some (if d = 2 then 1 else 0, w + 1)
                  | _ \<Rightarrow> Some (5, w))
        (foldr (\<lambda>(op, h). register op h)
          [(LoadSession, 11), (StoreSession, 12), (GetIdentityKeyPair, 13),
           (GetLocalRegistrationId, 14), (SaveIdentityKey, 15), (GetIdentityKey, 16),
           (IsTrustedIdentity, 17)] (initial (0::nat)))
        3 \<lparr>raw = 4\<rparr> \<lparr>raw = 6\<rparr>)
      = Some (5, 0, [(12, Call3 3 (AddressOf \<lparr>raw = 4\<rparr>) (AddressOf \<lparr>raw = 6\<rparr>))])
   \<and> spots_load_session_wrapper (recording_handler 11)
          (spots_register_load_session_callback 11 (initial [])) 3 21 \<lparr>raw = 22\<rparr> =
        Some (0, (spots_register_load_session_callback 11 (initial []))
                   \<lparr>host := [(3, AddressOf \<lparr>raw = 22\<rparr>)],
                    calls := [(11, Call3 3 (Cast 21) (AddressOf \<lparr>raw = 22\<rparr>))]\<rparr>)"
proof -
  let ?s = "foldr (\<lambda>(op, h). register op h)
       [(LoadSession, 11), (StoreSession, 12), (GetIdentityKeyPair, 13),
        (GetLocalRegistrationId, 14), (SaveIdentityKey, 15), (GetIdentityKey, 16),
        (IsTrustedIdentity, 17)] (initial (0::nat))"
  let ?code = "\<lambda>(f::ptr) a (w::nat). case a of
      Call4 x y z d \<Rightarrow> Some (if d = 2 then 1 else 0 :: c_int, w + 1) | _ \<Rightarrow> Some (5, w)"
  have s: "?s = \<lparr> g_load_session_callback = 11, g_store_session_callback = 12,
       g_get_identity_key_pair_callback = 13, g_get_local_registration_id_callback = 14,
       g_save_identity_key_callback = 15, g_get_identity_key_callback = 16,
       g_is_trusted_identity_callback = 17, g_dart_callback = NULL,
       g_dart_callback_ptr = NULL, host = 0, calls = [] \<rparr>"
    by (simp add: initial_def register_defs)
  show ?thesis
    unfolding s
    using arguments_forwarded
      [where s = ?s and code = ?code and ctx = 3 and address = "\<lparr>raw = 4\<rparr>"
          and public_key = "\<lparr>raw = 5\<rparr>" and direction = 2 and h = 11 and recordp = 21
          and addr = "\<lparr>raw = 22\<rparr>" and record' = "\<lparr>raw = 6\<rparr>"]
    unfolding s
    by simp
qed

section \<open>Registration by symbol name\<close>

text \<open>
  C5. When the symbol table resolves the name, by-name registration stores the
  resolved address in the Dispatch slot: after any further engine calls that ran to
  completion, the trampoline makes one call, to that address, and returns its status.
  When the name does not resolve, the registration returns normally and leaves the
  machine exactly as it was, so a handler registered before is still in the slot and the
  trampoline behaves as before the attempt.
\<close>

theorem by_name_registration:
  "(dlsym name \<noteq> NULL \<longrightarrow>
      run code cs (signal_register_dispatch_callback_by_name dlsym name s) = Some s1 \<longrightarrow>
        g_dart_callback s1 = dlsym name
        \<and> signal_dispatch_wrapper code s1 a =
            map_option
              (\<lambda>(r, w'). (r, s1\<lparr>host := w',
                                  calls := calls s1 @ [(dlsym name, CallDispatch a)]\<rparr>))
              (code (dlsym name) (CallDispatch a) (host s1)))
   \<and> (dlsym name = NULL \<longrightarrow>
        signal_register_dispatch_callback_by_name dlsym name s = s
        \<and> g_dart_callback (signal_register_dispatch_callback_by_name dlsym name
              (signal_register_dispatch_callback h s)) = h
        \<and> signal_dispatch_wrapper code
             (signal_register_dispatch_callback_by_name dlsym name
                (signal_register_dispatch_callback h s)) a
            = signal_dispatch_wrapper code (signal_register_dispatch_callback h s) a)"
proof -
  have resolved: "g_dart_callback s1 = dlsym name"
    if "dlsym name \<noteq> NULL"
      and "run code cs (signal_register_dispatch_callback_by_name dlsym name s) = Some s1"
    using run_slot [OF that(2), of Dispatch] that(1)
    by (simp add: signal_register_dispatch_callback_by_name_def Let_def)
  have reached: "signal_dispatch_wrapper code s1 a =
      map_option
        (\<lambda>(r, w'). (r, s1\<lparr>host := w', calls := calls s1 @ [(dlsym name, CallDispatch a)]\<rparr>))
        (code (dlsym name) (CallDispatch a) (host s1))"
    if "dlsym name \<noteq> NULL" and "g_dart_callback s1 = dlsym name"
    using that
    by (simp add: signal_dispatch_wrapper_def call_through_def map_option_case
        split: option.splits)
  have unresolved: "signal_register_dispatch_callback_by_name dlsym name s' = s'"
    if "dlsym name = NULL" for s' :: "'a machine"
    using that by (simp add: signal_register_dispatch_callback_by_name_def)
  have kept: "g_dart_callback (signal_register_dispatch_callback h s) = h"
    by (simp add: signal_register_dispatch_callback_def)
  from resolved reached unresolved kept show ?thesis
    by simp
qed

theorem by_name_registration_witness:
  "(\<lambda>n. if n = ''dart_dispatch'' then 77 else NULL) ''dart_dispatch'' \<noteq> NULL
   \<and> run (\<lambda>f a w. Some (0, f # w)) [DispatchCall 1]
        (signal_register_dispatch_callback_by_name
           (\<lambda>n. if n = ''dart_dispatch'' then 77 else NULL) ''dart_dispatch'' (initial []))
      = Some ((signal_register_dispatch_callback_ptr 77 (initial [77]))
                \<lparr>calls := [(77, CallDispatch 1)]\<rparr>)
   \<and> map_option fst (signal_dispatch_wrapper (\<lambda>f a w. Some (0, f # w))
        ((signal_register_dispatch_callback_ptr 77 (initial [77]))
                \<lparr>calls := [(77, CallDispatch 1)]\<rparr>) 2) = Some 0
   \<and> (\<lambda>n. if n = ''dart_dispatch'' then 77 else NULL) ''missing'' = NULL
   \<and> signal_dispatch_wrapper (\<lambda>f a w. Some (0, f # w))
        (signal_register_dispatch_callback_by_name
           (\<lambda>n. if n = ''dart_dispatch'' then 77 else NULL) ''missing''
           (signal_register_dispatch_callback 5 (initial []))) 2
      = Some (0, (signal_register_dispatch_callback 5 (initial [5]))
                   \<lparr>calls := [(5, CallDispatch 2)]\<rparr>)"
proof -
  let ?dlsym = "\<lambda>n. if n = ''dart_dispatch'' then 77 else NULL :: ptr"
  let ?code = "\<lambda>(f::ptr) (a::invocation) (w::ptr list). Some (0::c_int, f # w)"
  let ?s1 = "(signal_register_dispatch_callback_ptr 77 (initial [77]))
                \<lparr>calls := [(77, CallDispatch 1)]\<rparr>"
  have r: "run ?code [DispatchCall 1]
        (signal_register_dispatch_callback_by_name ?dlsym ''dart_dispatch'' (initial []))
      = Some ?s1"
    by (simp add: initial_def signal_register_dispatch_callback_by_name_def
        signal_register_dispatch_callback_ptr_def signal_dispatch_wrapper_def call_through_def)
  have found: "?dlsym ''dart_dispatch'' \<noteq> NULL" by simp
  have missing: "?dlsym ''missing'' = NULL" by simp
  from by_name_registration
      [where dlsym = ?dlsym and name = "''dart_dispatch''" and code = ?code
        and cs = "[DispatchCall 1]" and s = "initial []" and ?s1.0 = ?s1 and a = 2]
    found r
  have first: "map_option fst (signal_dispatch_wrapper ?code ?s1 2) = Some 0"
    by (simp add: map_option_case split: option.splits)
  from by_name_registration
      [where dlsym = ?dlsym and name = "''missing''" and code = ?code
        and s = "initial []" and h = 5 and a = 2]
    missing
  have second: "signal_dispatch_wrapper ?code
        (signal_register_dispatch_callback_by_name ?dlsym ''missing''
           (signal_register_dispatch_callback 5 (initial []))) 2
      = Some (0, (signal_register_dispatch_callback 5 (initial [5]))
                   \<lparr>calls := [(5, CallDispatch 2)]\<rparr>)"
    by (simp add: initial_def signal_register_dispatch_callback_def
        signal_register_dispatch_callback_by_name_def signal_dispatch_wrapper_def
        call_through_def)
  from found r first missing second show ?thesis by simp
qed

section \<open>Direct and address registration of the trampoline\<close>

lemma dispatch_ignores_aux:
  "signal_dispatch_wrapper code (s\<lparr>g_dart_callback_ptr := p\<rparr>) a =
     map_option (\<lambda>(r, s'). (r, s'\<lparr>g_dart_callback_ptr := p\<rparr>))
       (signal_dispatch_wrapper code s a)"
  by (simp add: signal_dispatch_wrapper_def call_through_def split: option.splits)

lemma register_ptr_direct:
  "signal_register_dispatch_callback_ptr f s =
     (signal_register_dispatch_callback f s)\<lparr>g_dart_callback_ptr := f\<rparr>"
  by (simp add: signal_register_dispatch_callback_ptr_def signal_register_dispatch_callback_def)

text \<open>
  C6. Registering the same callable \<open>f\<close> through the direct entry point and through the
  address entry point puts the same value in the slot the trampoline reads, and for
  every args address the trampoline then gives the same outcome: the same status (or
  the same failure to return), the same host world and the same call log.
\<close>

theorem direct_and_address_agree:
  "g_dart_callback (signal_register_dispatch_callback f s) =
     g_dart_callback (signal_register_dispatch_callback_ptr f s)
   \<and> outcome (signal_dispatch_wrapper code (signal_register_dispatch_callback f s) a) =
     outcome (signal_dispatch_wrapper code (signal_register_dispatch_callback_ptr f s) a)"
  by (simp add: register_ptr_direct dispatch_ignores_aux outcome_def option.map_comp
      comp_def case_prod_unfold)

section \<open>Registering a null handler\<close>

text \<open>
  C7. A registration always goes through: whatever value is registered for an operation,
  \<^verbatim>\<open>NULL\<close> included, is the value its slot holds afterwards (for Dispatch through the
  direct and the address entry points alike). Once \<^verbatim>\<open>NULL\<close> is registered, every
  later call of the operation's wrapper, after any engine calls that ran to completion,
  returns the status 1 and makes no call at all.
\<close>

theorem null_registration_accepted:
  "slot op (register op h s) = h
   \<and> g_dart_callback (signal_register_dispatch_callback_ptr h s) = h
   \<and> invoke code c (register (operation_of c) NULL s)
       = Some (1, register (operation_of c) NULL s)
   \<and> signal_dispatch_wrapper code (signal_register_dispatch_callback_ptr NULL s) a
       = Some (1, signal_register_dispatch_callback_ptr NULL s)
   \<and> (run code cs (register (operation_of c) NULL s) = Some s1
        \<longrightarrow> invoke code c s1 = Some (1, s1))"
proof -
  have later: "invoke code c s1 = Some (1, s1)"
    if "run code cs (register (operation_of c) NULL s) = Some s1"
    using run_slot [OF that, of "operation_of c"]
    by (simp add: slot_register_same invoke_unregistered)
  have ptr: "g_dart_callback (signal_register_dispatch_callback_ptr h' s) = h'" for h'
    by (simp add: signal_register_dispatch_callback_ptr_def)
  from later ptr [of h] ptr [of NULL] show ?thesis
    by (simp add: slot_register_same invoke_unregistered signal_dispatch_wrapper_def)
qed

theorem null_registration_accepted_witness:
  "run (\<lambda>f a w. Some (0, Suc w)) [DispatchCall 3, LoadSessionCall 1 2 \<lparr>raw = 3\<rparr>]
       (register LoadSession NULL
          (register Dispatch 8 (register LoadSession 9 (initial (0::nat)))))
     = Some ((register Dispatch 8 (initial (Suc 0)))\<lparr>calls := [(8, CallDispatch 3)]\<rparr>)
   \<and> invoke (\<lambda>f a w. Some (0, Suc w)) (LoadSessionCall 1 2 \<lparr>raw = 3\<rparr>)
        ((register Dispatch 8 (initial (Suc 0)))\<lparr>calls := [(8, CallDispatch 3)]\<rparr>)
     = Some (1, (register Dispatch 8 (initial (Suc 0)))\<lparr>calls := [(8, CallDispatch 3)]\<rparr>)"
proof -
  let ?code = "\<lambda>(f::ptr) (a::invocation) (w::nat). Some (0::c_int, Suc w)"
  let ?s = "register Dispatch 8 (register LoadSession 9 (initial (0::nat)))"
  let ?s1 = "(register Dispatch 8 (initial (Suc 0)))\<lparr>calls := [(8, CallDispatch 3)]\<rparr>"
  have r: "run ?code [DispatchCall 3, LoadSessionCall 1 2 \<lparr>raw = 3\<rparr>]
      (register (operation_of (LoadSessionCall 1 2 \<lparr>raw = 3\<rparr>)) NULL ?s) = Some ?s1"
    by (simp add: initial_def register_defs wrapper_defs call_through_def)
  from null_registration_accepted
      [where code = ?code and c = "LoadSessionCall 1 2 \<lparr>raw = 3\<rparr>" and s = ?s
        and cs = "[DispatchCall 3, LoadSessionCall 1 2 \<lparr>raw = 3\<rparr>]" and ?s1.0 = ?s1] r
  have "invoke ?code (LoadSessionCall 1 2 \<lparr>raw = 3\<rparr>) ?s1 = Some (1, ?s1)"
    by simp
  with r show ?thesis by simp
qed

section \<open>The status 1\<close>

text \<open>
  C8. When the handler in the slot returns the status 1, the wrapper returns 1, which is
  also what the same call returns when the slot holds no handler: the status alone does
  not tell the two apart.
\<close>

theorem sentinel_ambiguous:
  assumes "slot (operation_of c) s \<noteq> NULL"
    and "code (slot (operation_of c) s) (handler_args c) (host s) = Some (1, w')"
  shows "map_option fst (invoke code c s) = Some 1
    \<and> map_option fst (invoke code c (register (operation_of c) NULL s)) = Some 1"
  using invoke_registered [OF assms(1), of code] assms(2)
  by (simp add: call_through_def slot_register_same invoke_unregistered)

theorem sentinel_ambiguous_witness:
  "slot (operation_of (DispatchCall 64)) (register Dispatch 8 (initial (0::nat))) \<noteq> NULL
   \<and> (\<lambda>f a w. Some (1, Suc w)) (slot (operation_of (DispatchCall 64))
          (register Dispatch 8 (initial (0::nat))))
        (handler_args (DispatchCall 64)) (host (register Dispatch 8 (initial (0::nat))))
      = Some (1, Suc 0)
   \<and> map_option fst (invoke (\<lambda>f a w. Some (1, Suc w)) (DispatchCall 64)
        (register Dispatch 8 (initial (0::nat)))) = Some 1
   \<and> map_option fst (invoke (\<lambda>f a w. Some (1, Suc w)) (DispatchCall 64)
        (register Dispatch NULL (register Dispatch 8 (initial (0::nat))))) = Some 1"
proof -
  let ?code = "\<lambda>(f::ptr) (a::invocation) (w::nat). Some (1::c_int, Suc w)"
  let ?s = "register Dispatch 8 (initial (0::nat))"
  have h: "slot (operation_of (DispatchCall 64)) ?s \<noteq> NULL"
    by (simp add: initial_def register_defs)
  have r: "?code (slot (operation_of (DispatchCall 64)) ?s) (handler_args (DispatchCall 64))
      (host ?s) = Some (1, Suc 0)"
    by (simp add: initial_def register_defs)
  from h r sentinel_ambiguous
      [where code = ?code and c = "DispatchCall 64" and s = ?s and w' = "Suc 0"]
  show ?thesis
    by simp
qed

section \<open>Isolation of the slots\<close>

lemma invoke_register_other:
  "op \<noteq> operation_of c \<Longrightarrow>
   invoke code c (register op h s) =
     map_option (\<lambda>(r, s'). (r, register op h s')) (invoke code c s)"
  by (cases op; cases c)
    (simp_all add: register_defs wrapper_defs call_through_def split: option.splits)

lemma slot_register_ptr: "op \<noteq> Dispatch \<Longrightarrow>
    slot op (signal_register_dispatch_callback_ptr p s) = slot op s"
  by (cases op) (simp_all add: signal_register_dispatch_callback_ptr_def)

lemma slot_register_by_name: "op \<noteq> Dispatch \<Longrightarrow>
    slot op (signal_register_dispatch_callback_by_name dlsym name s) = slot op s"
  by (cases op) (simp_all add: signal_register_dispatch_callback_by_name_def Let_def)

lemma host_register_ptr:
  "host (signal_register_dispatch_callback_ptr p s) = host s"
  "calls (signal_register_dispatch_callback_ptr p s) = calls s"
  by (simp_all add: signal_register_dispatch_callback_ptr_def)

lemma host_register_by_name:
  "host (signal_register_dispatch_callback_by_name dlsym name s) = host s"
  "calls (signal_register_dispatch_callback_by_name dlsym name s) = calls s"
  by (simp_all add: signal_register_dispatch_callback_by_name_def Let_def)

lemma outcome_same_slot:
  assumes "slot (operation_of c) s2 = slot (operation_of c) s"
    and "host s2 = host s" and "calls s2 = calls s"
  shows "outcome (invoke code c s2) = outcome (invoke code c s)"
proof (cases "slot (operation_of c) s = NULL")
  case True
  with assms show ?thesis by (simp add: invoke_unregistered outcome_def)
next
  case False
  with assms show ?thesis
    by (simp add: invoke_registered outcome_def call_through_def split: option.splits)
qed

text \<open>
  C9. Registering a handler for one operation leaves the slot of every other operation
  as it was, and a call of another operation's wrapper has the same outcome (status,
  host world, call log) as without the registration and leaves the registration in
  place. The address and by-name entry points of Dispatch, which also write
  \<^verbatim>\<open>g_dart_callback_ptr\<close>, leave the seven store slots and the outcome of the seven
  store wrappers as they were; the store registrations leave \<^verbatim>\<open>g_dart_callback_ptr\<close>
  as it was.
\<close>

theorem registration_isolated:
  "(op \<noteq> op' \<longrightarrow> slot op' (register op h s) = slot op' s)
   \<and> (op \<noteq> operation_of c \<longrightarrow>
        invoke code c (register op h s) =
          map_option (\<lambda>(r, s'). (r, register op h s')) (invoke code c s)
        \<and> outcome (invoke code c (register op h s)) = outcome (invoke code c s))
   \<and> g_dart_callback_ptr (register op h s) = g_dart_callback_ptr s
   \<and> (op' \<noteq> Dispatch \<longrightarrow>
        slot op' (signal_register_dispatch_callback_ptr h s) = slot op' s
        \<and> slot op' (signal_register_dispatch_callback_by_name dlsym name s) = slot op' s)
   \<and> (operation_of c \<noteq> Dispatch \<longrightarrow>
        outcome (invoke code c (signal_register_dispatch_callback_ptr h s))
          = outcome (invoke code c s)
        \<and> outcome (invoke code c (signal_register_dispatch_callback_by_name dlsym name s))
          = outcome (invoke code c s))"
proof -
  have aux: "g_dart_callback_ptr (register op h s) = g_dart_callback_ptr s"
    by (cases op) (simp_all add: register_defs)
  have other: "outcome (invoke code c (register op h s)) = outcome (invoke code c s)"
    if "op \<noteq> operation_of c"
    using that
    by (intro outcome_same_slot) (simp_all add: slot_register_other host_register calls_register)
  have by_ptr: "outcome (invoke code c (signal_register_dispatch_callback_ptr h s))
      = outcome (invoke code c s)"
    if "operation_of c \<noteq> Dispatch"
    using that
    by (intro outcome_same_slot) (simp_all add: slot_register_ptr host_register_ptr)
  have by_name: "outcome (invoke code c (signal_register_dispatch_callback_by_name dlsym name s))
      = outcome (invoke code c s)"
    if "operation_of c \<noteq> Dispatch"
    using that
    by (intro outcome_same_slot) (simp_all add: slot_register_by_name host_register_by_name)
  from aux other by_ptr by_name show ?thesis
    by (simp add: slot_register_other invoke_register_other slot_register_ptr
        slot_register_by_name)
qed

theorem registration_isolated_witness:
  "StoreSession \<noteq> LoadSession
   \<and> StoreSession \<noteq> operation_of (LoadSessionCall 1 2 \<lparr>raw = 3\<rparr>)
   \<and> LoadSession \<noteq> Dispatch
   \<and> operation_of (LoadSessionCall 1 2 \<lparr>raw = 3\<rparr>) \<noteq> Dispatch
   \<and> slot LoadSession (register StoreSession 6 (register LoadSession 5 (initial (0::nat)))) = 5
   \<and> outcome (invoke (\<lambda>f a w. Some (of_nat (unat f), Suc w)) (LoadSessionCall 1 2 \<lparr>raw = 3\<rparr>)
        (register StoreSession 6 (register LoadSession 5 (initial (0::nat)))))
      = Some (5, Suc 0, [(5, Call3 1 (Cast 2) (AddressOf \<lparr>raw = 3\<rparr>))])
   \<and> outcome (invoke (\<lambda>f a w. Some (of_nat (unat f), Suc w)) (LoadSessionCall 1 2 \<lparr>raw = 3\<rparr>)
        (signal_register_dispatch_callback_ptr 6 (register LoadSession 5 (initial (0::nat)))))
      = Some (5, Suc 0, [(5, Call3 1 (Cast 2) (AddressOf \<lparr>raw = 3\<rparr>))])"
proof -
  let ?code = "\<lambda>(f::ptr) (a::invocation) (w::nat). Some (of_nat (unat f) :: c_int, Suc w)"
  let ?s = "register LoadSession 5 (initial (0::nat))"
  let ?c = "LoadSessionCall 1 2 \<lparr>raw = 3\<rparr>"
  have base: "slot LoadSession ?s = 5"
    "outcome (invoke ?code ?c ?s) = Some (5, Suc 0, [(5, Call3 1 (Cast 2) (AddressOf \<lparr>raw = 3\<rparr>))])"
    by (simp_all add: initial_def register_defs wrapper_defs call_through_def outcome_def)
  have apart: "StoreSession \<noteq> LoadSession" "StoreSession \<noteq> operation_of ?c"
    "LoadSession \<noteq> Dispatch" "operation_of ?c \<noteq> Dispatch"
    by simp_all
  note isolated = registration_isolated
      [where op = StoreSession and op' = LoadSession and c = ?c and h = 6 and s = ?s
        and code = ?code]
  from isolated apart
  have kept: "slot LoadSession (register StoreSession 6 ?s) = slot LoadSession ?s"
    by blast
  from isolated apart
  have same: "outcome (invoke ?code ?c (register StoreSession 6 ?s))
      = outcome (invoke ?code ?c ?s)"
    by blast
  from isolated apart
  have same_ptr: "outcome (invoke ?code ?c (signal_register_dispatch_callback_ptr 6 ?s))
      = outcome (invoke ?code ?c ?s)"
    by blast
  from apart kept same same_ptr base show ?thesis by simp
qed

section \<open>The auxiliary address slot\<close>

text \<open>
  C10. The trampoline never reads \<^verbatim>\<open>g_dart_callback_ptr\<close>: on two machines that differ
  only in that variable it gives, for every args address, the same status, host world
  and call log (or fails to return on both), and the variable keeps its value through the
  call. Direct registration leaves the variable as it was, the address entry point sets it
  to its argument, and the by-name entry point sets it to the resolved address.
\<close>

theorem aux_slot_never_read:
  "outcome (signal_dispatch_wrapper code (s\<lparr>g_dart_callback_ptr := p\<rparr>) a)
     = outcome (signal_dispatch_wrapper code s a)
   \<and> signal_dispatch_wrapper code (s\<lparr>g_dart_callback_ptr := p\<rparr>) a
     = map_option (\<lambda>(r, s'). (r, s'\<lparr>g_dart_callback_ptr := p\<rparr>))
         (signal_dispatch_wrapper code s a)
   \<and> g_dart_callback_ptr (signal_register_dispatch_callback f s) = g_dart_callback_ptr s
   \<and> g_dart_callback_ptr (signal_register_dispatch_callback_ptr f s) = f
   \<and> (dlsym name \<noteq> NULL \<longrightarrow>
        g_dart_callback_ptr (signal_register_dispatch_callback_by_name dlsym name s)
          = dlsym name)"
  by (simp add: dispatch_ignores_aux outcome_def option.map_comp comp_def case_prod_unfold
      signal_register_dispatch_callback_def signal_register_dispatch_callback_ptr_def
      signal_register_dispatch_callback_by_name_def Let_def)

theorem aux_slot_never_read_witness:
  "(\<lambda>n. if n = ''cb'' then 9 else NULL) ''cb'' \<noteq> NULL
   \<and> g_dart_callback_ptr (signal_register_dispatch_callback_by_name
        (\<lambda>n. if n = ''cb'' then 9 else NULL) ''cb'' (initial (0::nat))) = 9
   \<and> outcome (signal_dispatch_wrapper (\<lambda>f a w. Some (of_nat (unat f), Suc w))
        ((signal_register_dispatch_callback 4 (initial (0::nat)))\<lparr>g_dart_callback_ptr := 9\<rparr>) 2)
      = Some (4, Suc 0, [(4, CallDispatch 2)])
   \<and> outcome (signal_dispatch_wrapper (\<lambda>f a w. Some (of_nat (unat f), Suc w))
        (signal_register_dispatch_callback 4 (initial (0::nat))) 2)
      = Some (4, Suc 0, [(4, CallDispatch 2)])"
proof -
  let ?dlsym = "\<lambda>n. if n = ''cb'' then 9 else NULL :: ptr"
  let ?code = "\<lambda>(f::ptr) (a::invocation) (w::nat). Some (of_nat (unat f) :: c_int, Suc w)"
  let ?s = "signal_register_dispatch_callback 4 (initial (0::nat))"
  have found: "?dlsym ''cb'' \<noteq> NULL" by simp
  have base: "outcome (signal_dispatch_wrapper ?code ?s 2) = Some (4, Suc 0, [(4, CallDispatch 2)])"
    by (simp add: initial_def signal_register_dispatch_callback_def signal_dispatch_wrapper_def
        call_through_def outcome_def)
  from aux_slot_never_read
      [where dlsym = ?dlsym and name = "''cb''" and s = "initial (0::nat)"] found
  have "g_dart_callback_ptr (signal_register_dispatch_callback_by_name
        ?dlsym ''cb'' (initial (0::nat))) = ?dlsym ''cb''"
    by blast
  then have named: "g_dart_callback_ptr (signal_register_dispatch_callback_by_name
        ?dlsym ''cb'' (initial (0::nat))) = 9"
    by simp
  from aux_slot_never_read [where code = ?code and s = ?s and p = 9 and a = 2]
  have "outcome (signal_dispatch_wrapper ?code (?s\<lparr>g_dart_callback_ptr := 9\<rparr>) 2)
      = outcome (signal_dispatch_wrapper ?code ?s 2)"
    by blast
  with found named base show ?thesis by simp
qed

end
